theory Spec2Isabelle
  imports Main
begin

section \<open>The webhook bot of telegram\_webhook\_bot.py\<close>

text \<open>
  The program is a set of event handlers over five module-level structures
  (\<open>current_inline_message\<close>, \<open>users_query\<close>, \<open>admin_ids\<close>, \<open>users_subs_list\<close>,
  \<open>users_waitingcryptocheck\<close>). Each handler is embedded as a function on a record of
  these structures. Every call to the messaging platform is appended to a log together
  with its fate (returned or raised), which an environment fixes; an exception that the
  source does not catch ends the handler at that statement and is returned as a value.
  The changes made to the state before that statement stay, as in the source.

  Not embedded: the log records written through \<open>logger\<close>, the Flask routes and the
  start-up code. The unused read of lines 127-130 has no effect and is left out.
\<close>

subsection \<open>Python strings: startswith, endswith, split, str and int\<close>

text \<open>A string is a list of characters, each standing for the code point of its number
  (0 to 255). The tokens that the program writes into its own buttons are ASCII, and so
  is every string the handlers compare a token with.\<close>

definition startswith :: "string \<Rightarrow> string \<Rightarrow> bool" where
  "startswith s p = (take (length p) s = p)"

definition endswith :: "string \<Rightarrow> string \<Rightarrow> bool" where
  "endswith s p = (length p \<le> length s \<and> drop (length s - length p) s = p)"

text \<open>\<open>s.split(sep)\<close> for a separator of one character: the pieces between the
  occurrences of the separator, in order; never the empty list.\<close>

fun split_on :: "char \<Rightarrow> string \<Rightarrow> string list" where
  "split_on sep [] = [[]]"
| "split_on sep (c # cs) =
     (if c = sep then [] # split_on sep cs
      else (case split_on sep cs of
              [] \<Rightarrow> [[c]]
            | p # ps \<Rightarrow> (c # p) # ps))"

definition digit_chars :: string where
  "digit_chars = ''0123456789''"

fun nat_digits :: "nat \<Rightarrow> string" where
  "nat_digits n =
     (if n < 10 then [digit_chars ! n]
      else nat_digits (n div 10) @ [digit_chars ! (n mod 10)])"

declare nat_digits.simps [simp del]

text \<open>\<open>str(n)\<close> for a Python int. Every int that the program formats was read by
  \<open>int\<close> from the environment or from the platform's JSON, so it has at most 4300
  digits and \<open>str\<close> does not raise on it.\<close>

definition str_int :: "int \<Rightarrow> string" where
  "str_int i = (if i < 0 then CHR ''-'' # nat_digits (nat (- i)) else nat_digits (nat i))"

text \<open>The value of an ASCII digit, from its code.\<close>

definition digit_val :: "char \<Rightarrow> nat option" where
  "digit_val c =
     (let n = (of_char c :: nat) in if 48 \<le> n \<and> n \<le> 57 then Some (n - 48) else None)"

text \<open>The digits of a decimal literal; single underscores may separate digits. The
  flag says that the character before was a digit.\<close>

fun parse_digits :: "nat \<Rightarrow> bool \<Rightarrow> string \<Rightarrow> nat option" where
  "parse_digits acc prev [] = (if prev then Some acc else None)"
| "parse_digits acc prev (c # cs) =
     (case digit_val c of
        Some d \<Rightarrow> parse_digits (acc * 10 + d) True cs
      | None \<Rightarrow> if c = CHR ''_'' \<and> prev then parse_digits acc False cs else None)"

definition is_digit :: "char \<Rightarrow> bool" where
  "is_digit c = (digit_val c \<noteq> None)"

text \<open>The whitespace that \<open>int\<close> drops around a literal: tab to carriage return and
  the space, and of the code points above 127 the next-line and no-break space
  characters. The separators 28 to 31 are whitespace for \<open>str.strip\<close> but not for
  \<open>int\<close>, which raises on them.\<close>

definition is_space :: "char \<Rightarrow> bool" where
  "is_space c = (c \<in> {CHR 0x09, CHR 0x0A, CHR 0x0B, CHR 0x0C, CHR 0x0D, CHR 0x20,
                       CHR 0x85, CHR 0xA0})"

definition strip :: "string \<Rightarrow> string" where
  "strip s = rev (dropWhile is_space (rev (dropWhile is_space s)))"

text \<open>The default of \<open>sys.get_int_max_str_digits()\<close>, which the program does not change:
  a literal with more digits raises. Leading zeros count, underscores and the sign do
  not.\<close>

definition int_max_str_digits :: nat where
  "int_max_str_digits = 4300"

text \<open>\<open>int(s)\<close>: surrounding whitespace is dropped, one sign is allowed, then a decimal
  literal of at most \<open>int_max_str_digits\<close> digits. \<open>None\<close> stands for the
  \<open>ValueError\<close>.\<close>

definition py_int :: "string \<Rightarrow> int option" where
  "py_int s =
     (case strip s of
        [] \<Rightarrow> None
      | c # cs \<Rightarrow>
          (let literal = (if c = CHR ''-'' \<or> c = CHR ''+'' then cs else c # cs) in
           if int_max_str_digits < length (filter is_digit literal) then None
           else map_option (\<lambda>n. if c = CHR ''-'' then - int n else int n)
                  (parse_digits 0 False literal)))"

subsection \<open>Platform objects\<close>

text \<open>Message texts and button labels that are not ASCII in the source are constructors
  named after their meaning; the comment gives the source line.\<close>

datatype msgtext =
    Greeting string          \<comment> \<open>line 101, with the user's first name\<close>
  | ChoosePayment            \<comment> \<open>lines 176, 178\<close>
  | Ascii string             \<comment> \<open>a text that is ASCII in the source\<close>
  | SendReceiptHere          \<comment> \<open>line 190\<close>
  | NoSourceMessageAlert     \<comment> \<open>line 198\<close>
  | TwoHearts                \<comment> \<open>line 201\<close>
  | UserAdded string         \<comment> \<open>line 146, with the target as written in the token\<close>
  | UserNotAdded string      \<comment> \<open>line 155\<close>
  | Welcome                  \<comment> \<open>lines 151, 284\<close>
  | DontTrickMe              \<comment> \<open>line 157\<close>
  | NoRights                 \<comment> \<open>line 159\<close>
  | UseButtons               \<comment> \<open>line 239\<close>
  | NotAReceipt              \<comment> \<open>line 243\<close>
  | ReceiptCaption string string  \<comment> \<open>line 251: username or id, then id\<close>
  | WaitingConfirmation      \<comment> \<open>line 261\<close>
  | ForwardError             \<comment> \<open>line 265\<close>
  | InvalidAmount            \<comment> \<open>line 272\<close>
  | WrongCommand             \<comment> \<open>line 302\<close>
  | ThreeHearts              \<comment> \<open>line 208\<close>
  | ThreeArrows              \<comment> \<open>line 209\<close>

datatype label =
    YesOfCourse | StarsOption | UsdtOption | BallotCheck | BackArrow | CrossMark
  | Stars1500 | RepeatArrows | LoveLetter | ConfirmPayment | RejectPayment
  | HeartExclamation

datatype button =
    CallbackButton label string   \<comment> \<open>\<open>callback_data=\<close>\<close>
  | UrlButton label string        \<comment> \<open>\<open>url=\<close>\<close>
  | PayButton label               \<comment> \<open>\<open>pay=True\<close>\<close>

type_synonym keyboard = "button list list"

datatype message = Message (msg_chat: int) (msg_id: int)

datatype photo = FileBytes string | FileId string

record user =
  uid :: int
  first_name :: string
  username :: "string option"

text \<open>What \<open>users_query\<close> would hold: the source looks only at the truth value of the
  entry and at whether it has the attribute \<open>edit_message_caption\<close>.\<close>

record saved_query =
  sq_truthy :: bool
  sq_can_edit_caption :: bool

datatype call =
    AnswerCallback "msgtext option" bool
  | SendPhoto int photo msgtext keyboard
  | SendMessage int msgtext keyboard
  | EditMessageCaption msgtext "keyboard option"
  | EditMessageText msgtext
  | EditMessageMedia photo msgtext keyboard
  | ReplyText msgtext
  | ReplyInvoice message msgtext msgtext "(string \<times> int) list" string string string keyboard
  | AnswerPreCheckout string bool "msgtext option"
  | SavedEditCaption int msgtext

datatype exn = FileNotFoundError | OSError | TelegramError | ValueError

datatype file_status = Readable | Missing | Unreadable

subsection \<open>Configuration, environment and state\<close>

record config =
  MANAGER_ID :: int
  PROVIDER_TOKEN :: string
  ONELINK :: string

definition admin_ids :: "config \<Rightarrow> int set" where
  "admin_ids cfg = (if MANAGER_ID cfg \<noteq> 0 then {MANAGER_ID cfg} else {})"

text \<open>The environment of a run: \<open>net_ok k\<close> says whether the platform call number \<open>k\<close>
  of the log returns (otherwise it raises), \<open>net_reply k\<close> is the message object it
  returns, and \<open>fs\<close> says what opening a file does.\<close>

record env =
  net_ok :: "nat \<Rightarrow> bool"
  net_reply :: "nat \<Rightarrow> message"
  fs :: "string \<Rightarrow> file_status"

record world =
  current_inline_message :: "int \<rightharpoonup> message"
  users_query :: "int \<rightharpoonup> saved_query"
  users_subs_list :: "int list"
  users_waitingcryptocheck :: "int set"
  calls :: "(call \<times> bool) list"

type_synonym 'a result = "(exn + 'a) \<times> world"

definition api :: "env \<Rightarrow> call \<Rightarrow> world \<Rightarrow> message result" where
  "api e c w =
     (let k = length (calls w);
          w' = w\<lparr>calls := calls w @ [(c, net_ok e k)]\<rparr>
      in if net_ok e k then (Inr (net_reply e k), w') else (Inl TelegramError, w'))"

definition read_image_bytes :: "env \<Rightarrow> string \<Rightarrow> world \<Rightarrow> unit result" where
  "read_image_bytes e path w =
     (case fs e path of
        Readable \<Rightarrow> (Inr (), w)
      | Missing \<Rightarrow> (Inl FileNotFoundError, w)
      | Unreadable \<Rightarrow> (Inl OSError, w))"

text \<open>Sequencing: an exception skips the rest. \<open>catch\<close> is \<open>try: ... except Exception:\<close>,
  \<open>catch_only x\<close> is \<open>except\<close> for the one exception class \<open>x\<close>.\<close>

definition seq :: "'a result \<Rightarrow> ('a \<Rightarrow> world \<Rightarrow> 'b result) \<Rightarrow> 'b result" where
  "seq r f = (case r of (Inl x, w) \<Rightarrow> (Inl x, w) | (Inr v, w) \<Rightarrow> f v w)"

definition catch :: "'a result \<Rightarrow> (world \<Rightarrow> 'a result) \<Rightarrow> 'a result" where
  "catch r h = (case r of (Inl x, w) \<Rightarrow> h w | (Inr v, w) \<Rightarrow> (Inr v, w))"

definition catch_only :: "exn \<Rightarrow> 'a result \<Rightarrow> (world \<Rightarrow> 'a result) \<Rightarrow> 'a result" where
  "catch_only x r h =
     (case r of (Inl y, w) \<Rightarrow> if y = x then h w else (Inl y, w) | (Inr v, w) \<Rightarrow> (Inr v, w))"

definition ret :: "world \<Rightarrow> unit result" where
  "ret w = (Inr (), w)"

definition unit_of :: "'a result \<Rightarrow> unit result" where
  "unit_of r = (case r of (Inl x, w) \<Rightarrow> (Inl x, w) | (Inr v, w) \<Rightarrow> (Inr (), w))"

subsection \<open>Native payment: pre-charge validation (lines 268-274)\<close>

definition precheckout_handler :: "env \<Rightarrow> string \<Rightarrow> int \<Rightarrow> world \<Rightarrow> unit result" where
  "precheckout_handler e pre_id total_amount w =
     (if total_amount \<le> 0
      then unit_of (api e (AnswerPreCheckout pre_id False (Some InvalidAmount)) w)
      else unit_of (api e (AnswerPreCheckout pre_id True None) w))"

subsection \<open>The greeting (lines 90-115)\<close>

definition photo_hello :: string where "photo_hello = ''photos/photo_hello.JPG''"
definition photo_payments :: string where "photo_payments = ''photos/photo_payments.JPG''"
definition photo_thanks :: string where "photo_thanks = ''photos/photo_thanks.JPG''"

text \<open>\<open>update.message\<close> is present when the handler runs for the command and absent when
  the button-press handler calls it.\<close>

definition start_handler ::
  "env \<Rightarrow> user \<Rightarrow> int \<Rightarrow> message option \<Rightarrow> world \<Rightarrow> unit result" where
  "start_handler e u chat_id upd_message w =
     (let w1 = (case upd_message of
                  Some m \<Rightarrow> w\<lparr>current_inline_message := (current_inline_message w)(uid u \<mapsto> m)\<rparr>
                | None \<Rightarrow> w);
          reply_markup = [[CallbackButton YesOfCourse ''siski_gopay'']];
          text_hello = Greeting (first_name u)
      in catch_only FileNotFoundError
           (seq (read_image_bytes e photo_hello w1) (\<lambda>_ w.
              unit_of (api e (SendPhoto chat_id (FileBytes photo_hello) text_hello reply_markup) w)))
           (\<lambda>w. unit_of (api e (SendMessage chat_id text_hello reply_markup) w)))"

subsection \<open>Button presses (lines 118-231)\<close>

definition deposit_text :: string where
  "deposit_text = ''35 USDT TRC20'' @ [CHR 0x0A] @ ''TThh21cL3Thfv51hV2yeg1B5o9WSi2Vu54''"

definition thanks_keyboard :: "config \<Rightarrow> keyboard" where
  "thanks_keyboard cfg = [[UrlButton LoveLetter (ONELINK cfg)]]"

definition crypto_keyboard :: keyboard where
  "crypto_keyboard =
     [[CallbackButton BallotCheck ''siski_checkcryptopay''],
      [CallbackButton BackArrow ''siski_gopay'']]"

text \<open>\<open>str(user.id) in map(str, admin_ids)\<close> (line 140).\<close>

definition is_admin :: "config \<Rightarrow> int \<Rightarrow> bool" where
  "is_admin cfg i = (str_int i \<in> str_int ` admin_ids cfg)"

text \<open>Lines 137-160, the operator's decision.\<close>

definition admin_callback :: "config \<Rightarrow> env \<Rightarrow> user \<Rightarrow> string \<Rightarrow> world \<Rightarrow> unit result" where
  "admin_callback cfg e u data w =
     (let parts = split_on CHR '':'' data in
      if length parts = 2 \<and> is_admin cfg (uid u) then
        (let action_part = parts ! 0; target_user_id = parts ! 1 in
         if endswith action_part ''_YES'' then
           (case py_int target_user_id of
              None \<Rightarrow> (Inl ValueError, w)
            | Some t \<Rightarrow>
                seq (api e (EditMessageCaption (UserAdded target_user_id) None)
                       (w\<lparr>users_subs_list := users_subs_list w @ [t]\<rparr>)) (\<lambda>_ w.
                catch
                  (seq (read_image_bytes e photo_thanks w) (\<lambda>_ w.
                     unit_of (api e (SendPhoto t (FileBytes photo_thanks) Welcome (thanks_keyboard cfg)) w)))
                  ret))
         else if endswith action_part ''_NO'' then
           seq (api e (EditMessageCaption (UserNotAdded target_user_id) None) w) (\<lambda>_ w.
             (case py_int target_user_id of
                None \<Rightarrow> (Inl ValueError, w)
              | Some t \<Rightarrow>
                  unit_of (api e (SendMessage t DontTrickMe
                                    [[CallbackButton RepeatArrows ''siski_gocryptopayagain'']]) w)))
         else ret w)
      else unit_of (api e (EditMessageText NoRights) w))"

text \<open>Lines 162-231, the navigation of an ordinary user.\<close>

definition on_gopay :: "env \<Rightarrow> world \<Rightarrow> unit result" where
  "on_gopay e w =
     (let reply_markup = [[CallbackButton StarsOption ''siski_gostarpay''],
                          [CallbackButton UsdtOption ''siski_gocryptopay'']]
      in catch
           (seq (read_image_bytes e photo_payments w) (\<lambda>_ w.
              unit_of (api e (EditMessageMedia (FileBytes photo_payments) ChoosePayment reply_markup) w)))
           (\<lambda>w. unit_of (api e (EditMessageCaption ChoosePayment (Some reply_markup)) w)))"

definition on_gocryptopay :: "env \<Rightarrow> world \<Rightarrow> unit result" where
  "on_gocryptopay e w =
     unit_of (api e (EditMessageCaption (Ascii deposit_text) (Some crypto_keyboard)) w)"

definition on_checkcryptopay :: "env \<Rightarrow> user \<Rightarrow> world \<Rightarrow> unit result" where
  "on_checkcryptopay e u w =
     seq (api e (EditMessageCaption SendReceiptHere
                   (Some [[CallbackButton CrossMark ''siski_gocryptopay'']])) w) (\<lambda>_ w.
       ret (w\<lparr>users_waitingcryptocheck := insert (uid u) (users_waitingcryptocheck w)\<rparr>))"

definition on_gostarpay :: "config \<Rightarrow> env \<Rightarrow> user \<Rightarrow> world \<Rightarrow> unit result" where
  "on_gostarpay cfg e u w =
     (case current_inline_message w (uid u) of
        None \<Rightarrow> unit_of (api e (AnswerCallback (Some NoSourceMessageAlert) True) w)
      | Some user_message \<Rightarrow>
          seq (api e (EditMessageCaption TwoHearts None) w) (\<lambda>_ w.
            catch
              (unit_of (api e (ReplyInvoice user_message ThreeHearts ThreeArrows [(''XTR'', 1500)]
                                 (PROVIDER_TOKEN cfg) ''siski'' ''XTR'' [[PayButton Stars1500]]) w))
              ret))"

definition on_gocryptopayagain :: "env \<Rightarrow> user \<Rightarrow> world \<Rightarrow> unit result" where
  "on_gocryptopayagain e u w =
     catch
       (seq (read_image_bytes e photo_payments w) (\<lambda>_ w.
        seq (api e (SendPhoto (uid u) (FileBytes photo_payments) (Ascii deposit_text) crypto_keyboard) w)
          (\<lambda>sent w.
             ret (w\<lparr>current_inline_message := (current_inline_message w)(uid u \<mapsto> sent)\<rparr>))))
       (\<lambda>w. unit_of (api e (SendMessage (uid u) (Ascii deposit_text) crypto_keyboard) w))"

definition callback_query_handler ::
  "config \<Rightarrow> env \<Rightarrow> user \<Rightarrow> int \<Rightarrow> string \<Rightarrow> world \<Rightarrow> unit result" where
  "callback_query_handler cfg e u chat_id data w =
     seq (api e (AnswerCallback None False) w) (\<lambda>_ w.
       (let w = (if data \<noteq> ''siski_checkcryptopay'' \<and> uid u \<in> users_waitingcryptocheck w
                 then w\<lparr>users_waitingcryptocheck := users_waitingcryptocheck w - {uid u}\<rparr>
                 else w)
        in if startswith data ''admin_cryptopay_'' then admin_callback cfg e u data w
           else if data = ''start'' then start_handler e u chat_id None w
           else if data = ''siski_gopay'' then on_gopay e w
           else if data = ''siski_gocryptopay'' then on_gocryptopay e w
           else if data = ''siski_checkcryptopay'' then on_checkcryptopay e u w
           else if data = ''siski_gostarpay'' then on_gostarpay cfg e u w
           else if data = ''siski_gocryptopayagain'' then on_gocryptopayagain e u w
           else unit_of (api e (AnswerCallback None False) w)))"

subsection \<open>Receipt intake (lines 234-265)\<close>

definition receipt_keyboard :: "int \<Rightarrow> keyboard" where
  "receipt_keyboard i =
     [[CallbackButton ConfirmPayment (''admin_cryptopay_YES:'' @ str_int i)],
      [CallbackButton RejectPayment (''admin_cryptopay_NO:'' @ str_int i)]]"

definition receipt_caption :: "user \<Rightarrow> msgtext" where
  "receipt_caption u =
     ReceiptCaption
       (case username u of
          None \<Rightarrow> str_int (uid u)
        | Some n \<Rightarrow> if n = [] then str_int (uid u) else n)
       (str_int (uid u))"

text \<open>\<open>photos\<close> are the file ids of the sizes of the image, the largest last.\<close>

definition photo_message_handler ::
  "config \<Rightarrow> env \<Rightarrow> user \<Rightarrow> string list \<Rightarrow> world \<Rightarrow> unit result" where
  "photo_message_handler cfg e u photos w =
     (if uid u \<notin> users_waitingcryptocheck w then unit_of (api e (ReplyText UseButtons) w)
      else if photos = [] then unit_of (api e (ReplyText NotAReceipt) w)
      else
        catch
          (seq (api e (SendPhoto (MANAGER_ID cfg) (FileId (last photos)) (receipt_caption u)
                         (receipt_keyboard (uid u))) w) (\<lambda>_ w.
             unit_of (api e (ReplyText WaitingConfirmation) w)))
          (\<lambda>w. unit_of (api e (ReplyText ForwardError) w)))"

subsection \<open>Native payment: fulfilment (lines 277-296)\<close>

definition successful_payment_handler ::
  "config \<Rightarrow> env \<Rightarrow> user \<Rightarrow> int \<Rightarrow> world \<Rightarrow> unit result" where
  "successful_payment_handler cfg e u chat_id w =
     catch
       (seq (read_image_bytes e photo_thanks w) (\<lambda>_ w.
        seq (api e (SendPhoto chat_id (FileBytes photo_thanks) Welcome (thanks_keyboard cfg)) w) (\<lambda>_ w.
        seq (case users_query w (uid u) of
               None \<Rightarrow> ret w
             | Some saved_query \<Rightarrow>
                 if sq_truthy saved_query \<and> sq_can_edit_caption saved_query
                 then catch (unit_of (api e (SavedEditCaption (uid u) (Ascii '' '')) w)) ret
                 else ret w) (\<lambda>_ w.
        ret (w\<lparr>users_subs_list := users_subs_list w @ [uid u]\<rparr>)))))
       ret"

subsection \<open>Fallback (lines 299-302)\<close>

definition fallback_message_handler :: "env \<Rightarrow> int \<Rightarrow> world \<Rightarrow> unit result" where
  "fallback_message_handler e chat_id w =
     unit_of (api e (SendMessage chat_id WrongCommand [[CallbackButton HeartExclamation ''start'']]) w)"

subsection \<open>Dispatch (lines 306-311)\<close>

text \<open>An inbound message as the filters of the library see it: the object itself, its
  text, the file ids of its photo sizes, whether it carries a payment confirmation, and
  the bot command it starts with, if any (the command name in lower case, and whether it
  is addressed to this bot).\<close>

record inbound =
  in_message :: message
  in_text :: "string option"
  in_photo :: "string list"
  in_successful_payment :: bool
  in_command :: "(string \<times> bool) option"

datatype tg_update =
    MessageUpdate user inbound
  | CallbackQueryUpdate user int "string option"
  | PreCheckoutQueryUpdate string int

definition filters_COMMAND :: "inbound \<Rightarrow> bool" where
  "filters_COMMAND m = (in_command m \<noteq> None)"

definition filters_PHOTO :: "inbound \<Rightarrow> bool" where
  "filters_PHOTO m = (in_photo m \<noteq> [])"

definition filters_SUCCESSFUL_PAYMENT :: "inbound \<Rightarrow> bool" where
  "filters_SUCCESSFUL_PAYMENT m = in_successful_payment m"

definition filters_ALL :: "inbound \<Rightarrow> bool" where
  "filters_ALL m = True"

text \<open>The handlers are tried in the order of their registration and the first whose
  filter accepts the update runs alone.\<close>

definition process_update :: "config \<Rightarrow> env \<Rightarrow> tg_update \<Rightarrow> world \<Rightarrow> unit result" where
  "process_update cfg e upd w =
     (case upd of
        MessageUpdate u m \<Rightarrow>
          if in_command m = Some (''start'', True)
          then start_handler e u (msg_chat (in_message m)) (Some (in_message m)) w
          else if filters_SUCCESSFUL_PAYMENT m
          then successful_payment_handler cfg e u (msg_chat (in_message m)) w
          else if filters_PHOTO m \<and> \<not> filters_COMMAND m
          then photo_message_handler cfg e u (in_photo m) w
          else if filters_ALL m \<and> \<not> filters_COMMAND m
          then fallback_message_handler e (msg_chat (in_message m)) w
          else ret w
      | CallbackQueryUpdate u chat_id data \<Rightarrow>
          callback_query_handler cfg e u chat_id (case data of None \<Rightarrow> [] | Some d \<Rightarrow> d) w
      | PreCheckoutQueryUpdate pre_id total_amount \<Rightarrow>
          precheckout_handler e pre_id total_amount w)"

text \<open>The store before any update (lines 68-72).\<close>

definition initial :: world where
  "initial = \<lparr>current_inline_message = Map.empty, users_query = Map.empty,
               users_subs_list = [], users_waitingcryptocheck = {}, calls = []\<rparr>"

text \<open>A sequence of updates, handled one after the other; an exception that leaves a
  handler is logged by the library and the next update is taken.\<close>

definition run :: "config \<Rightarrow> env \<Rightarrow> tg_update list \<Rightarrow> world \<Rightarrow> world" where
  "run cfg e upds w = foldl (\<lambda>w upd. snd (process_update cfg e upd w)) w upds"

section \<open>Notions used in the statements\<close>

text \<open>The platform calls of one run: what the handler added to the log.\<close>

definition issued :: "world \<Rightarrow> world \<Rightarrow> (call \<times> bool) list" where
  "issued w w' = drop (length (calls w)) (calls w')"


definition is_invoice :: "call \<Rightarrow> bool" where
  "is_invoice c = (case c of ReplyInvoice m t d p pt pl cu k \<Rightarrow> True | _ \<Rightarrow> False)"

text \<open>The tokens that some branch of \<open>callback_query_handler\<close> tests for.\<close>

definition recognized :: "string \<Rightarrow> bool" where
  "recognized data =
     (startswith data ''admin_cryptopay_'' \<or>
      data \<in> {''start'', ''siski_gopay'', ''siski_gocryptopay'', ''siski_checkcryptopay'',
              ''siski_gostarpay'', ''siski_gocryptopayagain''})"

subsection \<open>Concrete inputs\<close>

definition cfg0 :: config where
  "cfg0 = \<lparr>MANAGER_ID = 1, PROVIDER_TOKEN = [], ONELINK = ''https://t.me/yourchannel''\<rparr>"

definition operator :: user where
  "operator = \<lparr>uid = 1, first_name = ''Olga'', username = None\<rparr>"

definition alice :: user where
  "alice = \<lparr>uid = 5, first_name = ''Alice'', username = Some ''alice''\<rparr>"

text \<open>Every call returns and every file is there.\<close>

definition all_ok :: env where
  "all_ok = \<lparr>net_ok = (\<lambda>k. True), net_reply = (\<lambda>k. Message 0 (int k)), fs = (\<lambda>p. Readable)\<rparr>"

text \<open>The platform is reachable but the photos directory is empty.\<close>

definition no_photos :: env where
  "no_photos = \<lparr>net_ok = (\<lambda>k. True), net_reply = (\<lambda>k. Message 0 (int k)), fs = (\<lambda>p. Missing)\<rparr>"

text \<open>Only the first \<open>n\<close> calls of the log return.\<close>

definition net_down_after :: "nat \<Rightarrow> env" where
  "net_down_after n =
     \<lparr>net_ok = (\<lambda>k. k < n), net_reply = (\<lambda>k. Message 0 (int k)), fs = (\<lambda>p. Readable)\<rparr>"

text \<open>User 5 has pressed the button of line 182 and is asked for a receipt.\<close>

definition awaiting5 :: world where
  "awaiting5 = initial\<lparr>users_waitingcryptocheck := {5}\<rparr>"

text \<open>User 5 has an interactive message on record.\<close>

definition with_message5 :: world where
  "with_message5 = initial\<lparr>current_inline_message := [5 \<mapsto> Message 5 10]\<rparr>"

definition bob :: user where
  "bob = \<lparr>uid = 7, first_name = ''Bob'', username = None\<rparr>"

text \<open>The operator has approved user 7 once.\<close>

definition approved7 :: world where
  "approved7 = snd (callback_query_handler cfg0 all_ok operator 1 ''admin_cryptopay_YES:7'' initial)"

text \<open>A text message of user 5 that is neither a command nor an image.\<close>

definition hello_msg :: inbound where
  "hello_msg = \<lparr>in_message = Message 5 11, in_text = Some ''hello'', in_photo = [],
                 in_successful_payment = False, in_command = None\<rparr>"

section \<open>Properties\<close>

subsection \<open>str and int are inverse\<close>

lemma digit_val_digit_chars: "d < 10 \<Longrightarrow> digit_val (digit_chars ! d) = Some d"
proof -
  assume "d < 10"
  then consider "d = 0" | "d = 1" | "d = 2" | "d = 3" | "d = 4" | "d = 5" | "d = 6" | "d = 7"
    | "d = 8" | "d = 9" by atomize_elim arith
  then show ?thesis
    by cases (simp_all add: digit_val_def digit_chars_def)
qed

lemma is_digit_digit_chars: "d < 10 \<Longrightarrow> is_digit (digit_chars ! d)"
  by (simp add: is_digit_def digit_val_digit_chars)

lemma nat_digits_digits: "c \<in> set (nat_digits n) \<Longrightarrow> is_digit c"
proof (induction n rule: nat_digits.induct)
  case (1 n)
  show ?case
  proof (cases "n < 10")
    case True
    with "1.prems" show ?thesis
      by (simp add: nat_digits.simps [of n] is_digit_digit_chars)
  next
    case False
    with "1.prems" "1.IH" show ?thesis
      by (auto simp add: nat_digits.simps [of n] is_digit_digit_chars)
  qed
qed

lemma nat_digits_nonempty: "nat_digits n \<noteq> []"
  by (subst nat_digits.simps) simp

lemma parse_digits_all_digits:
  "\<forall>c \<in> set ds. is_digit c \<Longrightarrow> ds \<noteq> [] \<or> prev \<Longrightarrow>
   parse_digits acc prev ds = Some (foldl (\<lambda>a c. a * 10 + the (digit_val c)) acc ds)"
  by (induction ds arbitrary: acc prev) (auto simp add: is_digit_def)

lemma foldl_nat_digits:
  "foldl (\<lambda>a c. a * 10 + the (digit_val c)) 0 (nat_digits n) = n"
proof (induction n rule: nat_digits.induct)
  case (1 n)
  show ?case
  proof (cases "n < 10")
    case True
    then show ?thesis
      by (simp add: nat_digits.simps [of n] digit_val_digit_chars)
  next
    case False
    with "1.IH" show ?thesis
      by (simp add: nat_digits.simps [of n] digit_val_digit_chars)
  qed
qed

lemma parse_nat_digits: "parse_digits 0 False (nat_digits n) = Some n"
  using parse_digits_all_digits [of "nat_digits n" False 0]
  by (simp add: nat_digits_digits nat_digits_nonempty foldl_nat_digits)

lemma is_digit_not_space: "is_digit c \<Longrightarrow> \<not> is_space c"
  by (auto simp add: is_digit_def is_space_def digit_val_def)

lemma dropWhile_none: "\<forall>c \<in> set s. \<not> P c \<Longrightarrow> dropWhile P s = s"
  by (cases s) auto

lemma strip_no_space: "\<forall>c \<in> set s. \<not> is_space c \<Longrightarrow> strip s = s"
  by (simp add: strip_def dropWhile_none)

lemma filter_digits_nat_digits: "filter is_digit (nat_digits n) = nat_digits n"
  by (simp add: nat_digits_digits)

text \<open>\<open>int\<close> reads back what \<open>str\<close> wrote, up to the limit on the digits.\<close>

lemma py_int_str_int:
  assumes "length (nat_digits (nat \<bar>i\<bar>)) \<le> int_max_str_digits"
  shows "py_int (str_int i) = Some i"
proof (cases "i < 0")
  case True
  have "\<forall>c \<in> set (CHR ''-'' # nat_digits (nat (- i))). \<not> is_space c"
    using nat_digits_digits is_digit_not_space by (auto simp add: is_space_def)
  then have "strip (CHR ''-'' # nat_digits (nat (- i))) = CHR ''-'' # nat_digits (nat (- i))"
    by (rule strip_no_space)
  moreover from True assms have "length (nat_digits (nat (- i))) \<le> int_max_str_digits"
    by (simp add: abs_if)
  ultimately show ?thesis
    using True
    by (simp add: py_int_def str_int_def parse_nat_digits filter_digits_nat_digits Let_def)
next
  case False
  obtain c cs where ds: "nat_digits (nat i) = c # cs"
    using nat_digits_nonempty [of "nat i"] by (cases "nat_digits (nat i)") auto
  have dig: "is_digit c"
    using nat_digits_digits [of c "nat i"] ds by simp
  then have c: "c \<noteq> CHR ''-''" "c \<noteq> CHR ''+''"
    by (auto simp add: is_digit_def digit_val_def)
  have st: "strip (nat_digits (nat i)) = nat_digits (nat i)"
    using nat_digits_digits is_digit_not_space by (intro strip_no_space) auto
  from False assms have len: "length (nat_digits (nat i)) \<le> int_max_str_digits"
    by (simp add: abs_if)
  have "filter is_digit (c # cs) = c # cs"
    using filter_digits_nat_digits [of "nat i"] ds by simp
  with len ds have "\<not> int_max_str_digits < length (filter is_digit (c # cs))"
    by simp
  with False c ds st parse_nat_digits [of "nat i"] show ?thesis
    by (simp add: py_int_def str_int_def Let_def del: filter.simps)
qed

text \<open>A literal with more digits than the limit raises.\<close>

lemma py_int_too_long:
  assumes "\<forall>c \<in> set s. is_digit c" and "int_max_str_digits < length s"
  shows "py_int s = None"
proof -
  from assms(2) obtain c cs where s: "s = c # cs" by (cases s) auto
  have "strip s = s"
    using assms(1) is_digit_not_space by (intro strip_no_space) auto
  moreover have "filter is_digit s = s"
    using assms(1) by simp
  moreover have "c \<noteq> CHR ''-''" "c \<noteq> CHR ''+''"
    using assms(1) s by (auto simp add: is_digit_def digit_val_def)
  ultimately show ?thesis
    using assms(2) s by (simp add: py_int_def Let_def del: filter.simps)
qed

text \<open>The separators 28 to 31 are not dropped: \<open>int\<close> raises on a literal padded with
  one of them.\<close>

lemma py_int_separator_padding: "py_int (CHR 0x1F # ''42'') = None"
  by (simp add: py_int_def strip_def is_space_def digit_val_def is_digit_def Let_def)

lemma nat_digits_inj: "nat_digits m = nat_digits n \<Longrightarrow> m = n"
  by (metis parse_nat_digits option.inject)

lemma nat_digits_not_minus: "nat_digits n \<noteq> CHR ''-'' # ds"
proof
  assume eq: "nat_digits n = CHR ''-'' # ds"
  then have "CHR ''-'' \<in> set (nat_digits n)" by simp
  then have "is_digit CHR ''-''" by (rule nat_digits_digits)
  then show False by (simp add: is_digit_def digit_val_def)
qed

lemma str_int_inj: "str_int i = str_int j \<longleftrightarrow> i = j"
proof
  assume eq: "str_int i = str_int j"
  show "i = j"
  proof (cases "i < 0")
    case True
    show ?thesis
    proof (cases "j < 0")
      case True
      with \<open>i < 0\<close> eq have "nat (- i) = nat (- j)"
        by (simp add: str_int_def nat_digits_inj)
      with True \<open>i < 0\<close> show ?thesis by simp
    next
      case False
      with \<open>i < 0\<close> eq nat_digits_not_minus [of "nat j" "nat_digits (nat (- i))"]
      show ?thesis by (simp add: str_int_def)
    qed
  next
    case False
    show ?thesis
    proof (cases "j < 0")
      case True
      with \<open>\<not> i < 0\<close> eq nat_digits_not_minus [of "nat i" "nat_digits (nat (- j))"]
      show ?thesis by (simp add: str_int_def)
    next
      case False
      with \<open>\<not> i < 0\<close> eq have "nat i = nat j"
        by (simp add: str_int_def nat_digits_inj)
      with False \<open>\<not> i < 0\<close> show ?thesis by simp
    qed
  qed
qed simp

text \<open>So the comparison of line 140 through \<open>str\<close> is membership in \<open>admin_ids\<close>.\<close>

lemma is_admin_iff: "is_admin cfg i \<longleftrightarrow> i \<in> admin_ids cfg"
  by (auto simp add: is_admin_def str_int_inj)

subsection \<open>The combinators\<close>

lemmas run_defs = api_def seq_def catch_def catch_only_def ret_def unit_of_def
  read_image_bytes_def Let_def

lemma snd_unit_of [simp]: "snd (unit_of r) = snd r"
  by (simp add: unit_of_def split: prod.splits sum.splits)

lemma snd_ret [simp]: "snd (ret w) = w"
  by (simp add: ret_def)

lemma snd_read_image_bytes [simp]: "snd (read_image_bytes e p w) = w"
  by (simp add: read_image_bytes_def split: file_status.splits)

lemma snd_api [simp]:
  "snd (api e c w) = w\<lparr>calls := calls w @ [(c, net_ok e (length (calls w)))]\<rparr>"
  by (simp add: api_def Let_def)

lemma admin_token_not_checkcryptopay:
  "startswith data ''admin_cryptopay_'' \<Longrightarrow> data \<noteq> ''siski_checkcryptopay''"
  by (auto simp add: startswith_def)

lemmas input_defs = cfg0_def operator_def alice_def bob_def all_ok_def no_photos_def
  net_down_after_def awaiting5_def with_message5_def initial_def admin_ids_def

lemmas string_defs = startswith_def endswith_def py_int_def strip_def is_space_def digit_val_def
  is_digit_def int_max_str_digits_def

text \<open>When the acknowledgement of line 124 raises, the handler has done nothing else.\<close>

lemma unacknowledged_press:
  "\<not> net_ok e (length (calls w)) \<Longrightarrow>
   callback_query_handler cfg e u chat_id data w =
     (Inl TelegramError, w\<lparr>calls := calls w @ [(AnswerCallback None False, False)]\<rparr>)"
  by (simp add: callback_query_handler_def api_def seq_def Let_def)

subsection \<open>The awaiting set through the branches of the button handler\<close>

lemma waiting_admin_callback:
  "users_waitingcryptocheck (snd (admin_callback cfg e u data w)) = users_waitingcryptocheck w"
  by (simp add: admin_callback_def run_defs split: option.splits file_status.splits)

lemma waiting_start_handler:
  "users_waitingcryptocheck (snd (start_handler e u chat m w)) = users_waitingcryptocheck w"
  by (simp add: start_handler_def run_defs split: option.splits file_status.splits)

lemma waiting_on_gopay:
  "users_waitingcryptocheck (snd (on_gopay e w)) = users_waitingcryptocheck w"
  by (simp add: on_gopay_def run_defs split: file_status.splits)

lemma waiting_on_gocryptopay:
  "users_waitingcryptocheck (snd (on_gocryptopay e w)) = users_waitingcryptocheck w"
  by (simp add: on_gocryptopay_def)

lemma waiting_on_gostarpay:
  "users_waitingcryptocheck (snd (on_gostarpay cfg e u w)) = users_waitingcryptocheck w"
  by (simp add: on_gostarpay_def run_defs split: option.splits)

lemma waiting_on_gocryptopayagain:
  "users_waitingcryptocheck (snd (on_gocryptopayagain e u w)) = users_waitingcryptocheck w"
  by (simp add: on_gocryptopayagain_def run_defs split: file_status.splits)

lemmas waiting_branches = waiting_admin_callback waiting_start_handler waiting_on_gopay
  waiting_on_gocryptopay waiting_on_gostarpay waiting_on_gocryptopayagain


subsection \<open>\<open>users_query\<close> is never written\<close>

lemma users_query_admin_callback:
  "users_query (snd (admin_callback cfg e u data w)) = users_query w"
  by (simp add: admin_callback_def run_defs split: option.splits file_status.splits)

lemma users_query_start_handler:
  "users_query (snd (start_handler e u chat m w)) = users_query w"
  by (simp add: start_handler_def run_defs split: option.splits file_status.splits)

lemma users_query_on_gopay: "users_query (snd (on_gopay e w)) = users_query w"
  by (simp add: on_gopay_def run_defs split: file_status.splits)

lemma users_query_on_gocryptopay: "users_query (snd (on_gocryptopay e w)) = users_query w"
  by (simp add: on_gocryptopay_def)

lemma users_query_on_checkcryptopay: "users_query (snd (on_checkcryptopay e u w)) = users_query w"
  by (simp add: on_checkcryptopay_def run_defs)

lemma users_query_on_gostarpay: "users_query (snd (on_gostarpay cfg e u w)) = users_query w"
  by (simp add: on_gostarpay_def run_defs split: option.splits)

lemma users_query_on_gocryptopayagain:
  "users_query (snd (on_gocryptopayagain e u w)) = users_query w"
  by (simp add: on_gocryptopayagain_def run_defs split: file_status.splits)

lemmas users_query_branches = users_query_admin_callback users_query_start_handler
  users_query_on_gopay users_query_on_gocryptopay users_query_on_checkcryptopay
  users_query_on_gostarpay users_query_on_gocryptopayagain

lemma users_query_callback:
  "users_query (snd (callback_query_handler cfg e u chat_id data w)) = users_query w"
  by (simp add: callback_query_handler_def api_def seq_def Let_def users_query_branches)

lemma users_query_payment:
  "users_query (snd (successful_payment_handler cfg e u chat_id w)) = users_query w"
  by (simp add: successful_payment_handler_def run_defs split: option.splits file_status.splits)

lemma users_query_photo:
  "users_query (snd (photo_message_handler cfg e u photos w)) = users_query w"
  by (simp add: photo_message_handler_def run_defs)

lemma users_query_process_update:
  "users_query (snd (process_update cfg e upd w)) = users_query w"
proof (cases upd)
  case (MessageUpdate u m)
  then show ?thesis
    by (simp add: process_update_def users_query_start_handler users_query_payment
          users_query_photo fallback_message_handler_def)
next
  case (CallbackQueryUpdate u chat_id data)
  then show ?thesis
    by (simp add: process_update_def users_query_callback)
next
  case (PreCheckoutQueryUpdate pre_id total_amount)
  then show ?thesis
    by (simp add: process_update_def precheckout_handler_def)
qed

lemma users_query_run: "users_query (run cfg e upds w) = users_query w"
  unfolding run_def
  by (induction upds arbitrary: w) (simp_all add: users_query_process_update)

subsection \<open>The two places that grant membership\<close>

lemma approve_appends:
  assumes "uid u \<in> admin_ids cfg"
      and "startswith data ''admin_cryptopay_''"
      and "split_on CHR '':'' data = [action_part, target]"
      and "endswith action_part ''_YES''"
      and "py_int target = Some t"
      and "net_ok e (length (calls w))"
  shows "users_subs_list (snd (callback_query_handler cfg e u chat_id data w)) = users_subs_list w @ [t]"
  using assms
  by (simp add: callback_query_handler_def admin_callback_def is_admin_iff run_defs
        split: file_status.splits)

lemma payment_appends:
  assumes "fs e photo_thanks = Readable" and "net_ok e (length (calls w))"
  shows "users_subs_list (snd (successful_payment_handler cfg e u chat_id w)) = users_subs_list w @ [uid u]"
  using assms
  by (simp add: successful_payment_handler_def run_defs split: option.splits)

lemma payment_calls:
  assumes "fs e photo_thanks = Readable" and "net_ok e (length (calls w))"
  shows "issued w (snd (successful_payment_handler cfg e u chat_id w)) =
           (SendPhoto chat_id (FileBytes photo_thanks) Welcome (thanks_keyboard cfg), True) #
           (case users_query w (uid u) of
              None \<Rightarrow> []
            | Some q \<Rightarrow>
                if sq_truthy q \<and> sq_can_edit_caption q
                then [(SavedEditCaption (uid u) (Ascii '' ''), net_ok e (Suc (length (calls w))))]
                else [])"
  using assms
  by (simp add: successful_payment_handler_def run_defs issued_def split: option.splits)

text \<open>The payer is appended only when the image was read and the delivery returned.\<close>

lemma payment_subs:
  "users_subs_list (snd (successful_payment_handler cfg e u chat_id w)) =
     (if fs e photo_thanks = Readable \<and> net_ok e (length (calls w))
      then users_subs_list w @ [uid u] else users_subs_list w)"
  by (simp add: successful_payment_handler_def run_defs split: option.splits file_status.splits)

text \<open>In every state that the program reaches \<open>users_query\<close> is empty.\<close>

lemma users_query_reached: "users_query (run cfg e upds initial) = Map.empty"
  using users_query_run [of cfg e upds initial] by (simp add: initial_def)

lemma subs_approved7: "users_subs_list approved7 = [7]"
  by (simp add: approved7_def callback_query_handler_def admin_callback_def is_admin_iff run_defs
        input_defs string_defs)

subsection \<open>The controls of a forwarded receipt lead back to the sender\<close>

lemma split_on_no_sep: "sep \<notin> set s \<Longrightarrow> split_on sep s = [s]"
  by (induction s) auto

lemma colon_not_in_str_int: "CHR '':'' \<notin> set (str_int i)"
  using nat_digits_digits [of "CHR '':''"]
  by (auto simp add: str_int_def is_digit_def digit_val_def)

lemma approve_control_grants_sender:
  assumes "uid op \<in> admin_ids cfg" and "net_ok e (length (calls w))"
      and "length (nat_digits (nat \<bar>i\<bar>)) \<le> int_max_str_digits"
  shows "users_subs_list (snd (callback_query_handler cfg e op chat_id
            (''admin_cryptopay_YES:'' @ str_int i) w)) = users_subs_list w @ [i]"
  using assms
  by (intro approve_appends [where action_part = "''admin_cryptopay_YES''" and target = "str_int i"])
     (simp_all add: startswith_def endswith_def split_on_no_sep colon_not_in_str_int py_int_str_int)

subsection \<open>Which handler a message reaches\<close>

lemma photo_message_dispatch:
  "in_photo m \<noteq> [] \<Longrightarrow> in_command m = None \<Longrightarrow> \<not> in_successful_payment m \<Longrightarrow>
   process_update cfg e (MessageUpdate u m) w = photo_message_handler cfg e u (in_photo m) w"
  by (simp add: process_update_def filters_PHOTO_def filters_COMMAND_def
        filters_SUCCESSFUL_PAYMENT_def)

lemma text_message_goes_to_fallback:
  "in_photo m = [] \<Longrightarrow> in_command m = None \<Longrightarrow> \<not> in_successful_payment m \<Longrightarrow>
   process_update cfg e (MessageUpdate u m) w =
     fallback_message_handler e (msg_chat (in_message m)) w"
  by (simp add: process_update_def filters_PHOTO_def filters_COMMAND_def filters_ALL_def
        filters_SUCCESSFUL_PAYMENT_def)

section \<open>The claims\<close>

text \<open>
  C1, as the code has it. A button press with a token that starts with
  \<open>admin_cryptopay_\<close>, from a user outside \<open>admin_ids\<close>, leaves \<open>users_subs_list\<close>,
  \<open>current_inline_message\<close> and \<open>users_query\<close> as they were and adds nobody to
  \<open>users_waitingcryptocheck\<close>; the one change of state is that the actor's own entry in
  \<open>users_waitingcryptocheck\<close> is removed (lines 133-134 run before the test of line 137).
  After the acknowledgement the handler edits the message to the text of line 159 and
  issues nothing else.
\<close>

theorem non_operator_decision_denied:
  assumes "uid u \<notin> admin_ids cfg"
      and "startswith data ''admin_cryptopay_''"
  shows "users_subs_list (snd (callback_query_handler cfg e u chat_id data w)) = users_subs_list w \<and>
         current_inline_message (snd (callback_query_handler cfg e u chat_id data w)) = current_inline_message w \<and>
         users_query (snd (callback_query_handler cfg e u chat_id data w)) = users_query w \<and>
         users_waitingcryptocheck (snd (callback_query_handler cfg e u chat_id data w)) =
           (if net_ok e (length (calls w)) then users_waitingcryptocheck w - {uid u}
            else users_waitingcryptocheck w) \<and>
         issued w (snd (callback_query_handler cfg e u chat_id data w)) =
           (if net_ok e (length (calls w))
            then [(AnswerCallback None False, True),
                  (EditMessageText NoRights, net_ok e (Suc (length (calls w))))]
            else [(AnswerCallback None False, False)])"
  using assms admin_token_not_checkcryptopay [of data]
  by (auto simp add: callback_query_handler_def admin_callback_def is_admin_iff run_defs issued_def)

theorem non_operator_decision_denied_witness:
  "users_subs_list (snd (callback_query_handler cfg0 all_ok alice 5 ''admin_cryptopay_YES:7'' awaiting5)) = [] \<and>
   users_waitingcryptocheck (snd (callback_query_handler cfg0 all_ok alice 5 ''admin_cryptopay_YES:7'' awaiting5)) = {} \<and>
   issued awaiting5 (snd (callback_query_handler cfg0 all_ok alice 5 ''admin_cryptopay_YES:7'' awaiting5)) =
     [(AnswerCallback None False, True), (EditMessageText NoRights, True)]"
  using non_operator_decision_denied [of alice cfg0 "''admin_cryptopay_YES:7''" all_ok 5 awaiting5]
  by (simp add: input_defs startswith_def)

text \<open>
  The claim as stated fails: user 5 is not the operator, is waiting for a receipt, and
  replays the Approve token of user 7; afterwards user 5 is no longer waiting.
\<close>

theorem non_operator_clears_own_flag_counterexample:
  "uid alice \<notin> admin_ids cfg0 \<and>
   startswith ''admin_cryptopay_YES:7'' ''admin_cryptopay_'' \<and>
   users_waitingcryptocheck awaiting5 = {5} \<and>
   users_waitingcryptocheck
     (snd (callback_query_handler cfg0 all_ok alice 5 ''admin_cryptopay_YES:7'' awaiting5)) = {}"
  by (simp add: callback_query_handler_def admin_callback_def is_admin_iff run_defs input_defs
        startswith_def)

text \<open>
  C2, as the code has it. An operator presses Approve: the token starts with
  \<open>admin_cryptopay_\<close>, splits at its one colon into an action that ends in \<open>_YES\<close>
  and a target that \<open>int\<close> reads as \<open>t\<close>. When the acknowledgement of line 124
  returns, \<open>t\<close> is appended to \<open>users_subs_list\<close> and is in it when the handler ends,
  for every fate of the caption edit, of the read of the image and of the delivery to
  the target. When the acknowledgement raises, the handler ends there and the list is as
  before.
\<close>

theorem approve_grants_membership:
  assumes "uid u \<in> admin_ids cfg"
      and "startswith data ''admin_cryptopay_''"
      and "split_on CHR '':'' data = [action_part, target]"
      and "endswith action_part ''_YES''"
      and "py_int target = Some t"
  shows "users_subs_list (snd (callback_query_handler cfg e u chat_id data w)) =
           (if net_ok e (length (calls w)) then users_subs_list w @ [t] else users_subs_list w) \<and>
         (net_ok e (length (calls w)) \<longrightarrow>
            t \<in> set (users_subs_list (snd (callback_query_handler cfg e u chat_id data w))))"
proof (cases "net_ok e (length (calls w))")
  case True
  with approve_appends [OF assms True, of chat_id] show ?thesis by simp
next
  case False
  then show ?thesis by (simp add: unacknowledged_press)
qed

text \<open>The witness: the image is missing; the delivery raises; the caption edit raises.\<close>

theorem approve_grants_membership_witness:
  "42 \<in> set (users_subs_list
      (snd (callback_query_handler cfg0 no_photos operator 1 ''admin_cryptopay_YES:42'' initial))) \<and>
   42 \<in> set (users_subs_list
      (snd (callback_query_handler cfg0 (net_down_after 2) operator 1 ''admin_cryptopay_YES:42'' initial))) \<and>
   42 \<in> set (users_subs_list
      (snd (callback_query_handler cfg0 (net_down_after 1) operator 1 ''admin_cryptopay_YES:42'' initial)))"
  using approve_grants_membership [of operator cfg0 "''admin_cryptopay_YES:42''"
          "''admin_cryptopay_YES''" "''42''" 42 no_photos 1 initial]
        approve_grants_membership [of operator cfg0 "''admin_cryptopay_YES:42''"
          "''admin_cryptopay_YES''" "''42''" 42 "net_down_after 2" 1 initial]
        approve_grants_membership [of operator cfg0 "''admin_cryptopay_YES:42''"
          "''admin_cryptopay_YES''" "''42''" 42 "net_down_after 1" 1 initial]
  by (simp add: input_defs string_defs Let_def)

text \<open>
  The claim as stated fails: the operator presses Approve for user 42 and the
  acknowledgement of line 124 raises; nobody is granted membership.
\<close>

theorem approve_unacknowledged_counterexample:
  "uid operator \<in> admin_ids cfg0 \<and>
   split_on CHR '':'' ''admin_cryptopay_YES:42'' = [''admin_cryptopay_YES'', ''42''] \<and>
   py_int ''42'' = Some 42 \<and>
   users_subs_list
     (snd (callback_query_handler cfg0 (net_down_after 0) operator 1 ''admin_cryptopay_YES:42'' initial)) = []"
  by (simp add: callback_query_handler_def api_def seq_def input_defs string_defs Let_def)



text \<open>
  C4. Pre-charge validation answers the query exactly once: with \<open>ok=False\<close> and the
  reason of line 272 when the amount is at most zero, with \<open>ok=True\<close> and no reason when
  the amount is positive. Nothing else of the state changes.
\<close>

theorem precheckout_decision:
  "snd (precheckout_handler e pre_id total_amount w) =
     w\<lparr>calls := calls w @
        [(if total_amount \<le> 0 then AnswerPreCheckout pre_id False (Some InvalidAmount)
          else AnswerPreCheckout pre_id True None,
          net_ok e (length (calls w)))]\<rparr>"
  by (simp add: precheckout_handler_def)

theorem precheckout_decision_witness:
  "calls (snd (precheckout_handler all_ok ''q1'' 0 initial)) =
     [(AnswerPreCheckout ''q1'' False (Some InvalidAmount), True)] \<and>
   calls (snd (precheckout_handler all_ok ''q2'' 1500 initial)) =
     [(AnswerPreCheckout ''q2'' True None, True)]"
  using precheckout_decision [of all_ok "''q1''" 0 initial]
    precheckout_decision [of all_ok "''q2''" 1500 initial]
  by (simp add: input_defs)

text \<open>
  C5, as the code has it. For a button press whose token is not
  \<open>siski_checkcryptopay\<close>: when the acknowledgement of line 124 returns, the handler
  ends with the user removed from \<open>users_waitingcryptocheck\<close> and the set otherwise as
  before, whatever the token is and whatever the later platform calls do. When the
  acknowledgement raises, the handler ends before lines 133-134 and the set is as it
  was.
\<close>

theorem navigation_clears_awaiting:
  assumes "data \<noteq> ''siski_checkcryptopay''"
  shows "users_waitingcryptocheck (snd (callback_query_handler cfg e u chat_id data w)) =
           (if net_ok e (length (calls w)) then users_waitingcryptocheck w - {uid u}
            else users_waitingcryptocheck w) \<and>
         (net_ok e (length (calls w)) \<longrightarrow>
            uid u \<notin> users_waitingcryptocheck (snd (callback_query_handler cfg e u chat_id data w)))"
  using assms
  by (auto simp add: callback_query_handler_def api_def seq_def Let_def waiting_branches)

theorem navigation_clears_awaiting_witness:
  "5 \<in> users_waitingcryptocheck awaiting5 \<and>
   5 \<notin> users_waitingcryptocheck
         (snd (callback_query_handler cfg0 (net_down_after 1) alice 5 ''siski_gopay'' awaiting5))"
  using navigation_clears_awaiting [of "''siski_gopay''" cfg0 "net_down_after 1" alice 5 awaiting5]
  by (simp add: input_defs)

text \<open>
  The claim as stated fails: user 5 is waiting for a receipt and goes back to the
  payment menu; the acknowledgement of line 124 raises and user 5 is still waiting.
\<close>

theorem navigation_unacknowledged_counterexample:
  "''siski_gopay'' \<noteq> ''siski_checkcryptopay'' \<and>
   users_waitingcryptocheck awaiting5 = {5} \<and>
   users_waitingcryptocheck
     (snd (callback_query_handler cfg0 (net_down_after 0) alice 5 ''siski_gopay'' awaiting5)) = {5}"
  by (simp add: callback_query_handler_def api_def seq_def input_defs)

text \<open>
  C6, as the code has it. A button press with a token that no branch tests for leaves
  \<open>users_subs_list\<close>, \<open>current_inline_message\<close> and \<open>users_query\<close> as they were; it is
  acknowledged (twice, lines 124 and 231) and no call with a text is issued. The state
  does change in one place: the actor's entry in \<open>users_waitingcryptocheck\<close> is removed,
  as for every token other than \<open>siski_checkcryptopay\<close>.
\<close>

theorem unrecognized_token_effect:
  assumes "\<not> recognized data"
  shows "users_subs_list (snd (callback_query_handler cfg e u chat_id data w)) = users_subs_list w \<and>
         current_inline_message (snd (callback_query_handler cfg e u chat_id data w)) = current_inline_message w \<and>
         users_query (snd (callback_query_handler cfg e u chat_id data w)) = users_query w \<and>
         users_waitingcryptocheck (snd (callback_query_handler cfg e u chat_id data w)) =
           (if net_ok e (length (calls w)) then users_waitingcryptocheck w - {uid u}
            else users_waitingcryptocheck w) \<and>
         issued w (snd (callback_query_handler cfg e u chat_id data w)) =
           (if net_ok e (length (calls w))
            then [(AnswerCallback None False, True),
                  (AnswerCallback None False, net_ok e (Suc (length (calls w))))]
            else [(AnswerCallback None False, False)])"
  using assms
  by (auto simp add: callback_query_handler_def recognized_def run_defs issued_def)

theorem unrecognized_token_effect_witness:
  "\<not> recognized ''siski_old_button'' \<and>
   users_waitingcryptocheck
     (snd (callback_query_handler cfg0 all_ok alice 5 ''siski_old_button'' awaiting5)) = {} \<and>
   issued awaiting5 (snd (callback_query_handler cfg0 all_ok alice 5 ''siski_old_button'' awaiting5)) =
     [(AnswerCallback None False, True), (AnswerCallback None False, True)]"
  using unrecognized_token_effect [of "''siski_old_button''" cfg0 all_ok alice 5 awaiting5]
  by (simp add: input_defs recognized_def startswith_def)

text \<open>
  The claim as stated fails: user 5 is waiting for a receipt and presses a button whose
  token no branch knows; afterwards user 5 is no longer waiting.
\<close>

theorem unrecognized_token_clears_flag_counterexample:
  "\<not> recognized ''siski_old_button'' \<and>
   users_waitingcryptocheck awaiting5 = {5} \<and>
   users_waitingcryptocheck
     (snd (callback_query_handler cfg0 all_ok alice 5 ''siski_old_button'' awaiting5)) = {}"
  by (simp add: callback_query_handler_def recognized_def run_defs input_defs startswith_def)

text \<open>
  C7, as the code has it. The token is \<open>siski_gostarpay\<close> and
  \<open>current_inline_message\<close> has no entry for the user. No invoice call is issued. When
  the acknowledgement of line 124 returns, the handler answers the query with the alert
  of line 198 and issues nothing else; when the acknowledgement raises, the handler ends
  there and no alert is sent.
\<close>

theorem native_checkout_without_message:
  assumes "current_inline_message w (uid u) = None"
  shows "(\<forall>c \<in> fst ` set (issued w (snd (callback_query_handler cfg e u chat_id ''siski_gostarpay'' w))).
            \<not> is_invoice c) \<and>
         issued w (snd (callback_query_handler cfg e u chat_id ''siski_gostarpay'' w)) =
           (if net_ok e (length (calls w))
            then [(AnswerCallback None False, True),
                  (AnswerCallback (Some NoSourceMessageAlert) True, net_ok e (Suc (length (calls w))))]
            else [(AnswerCallback None False, False)])"
  using assms
  by (simp add: callback_query_handler_def on_gostarpay_def startswith_def run_defs issued_def
        is_invoice_def)

theorem native_checkout_without_message_witness:
  "current_inline_message initial (uid alice) = None \<and>
   issued initial (snd (callback_query_handler cfg0 all_ok alice 5 ''siski_gostarpay'' initial)) =
     [(AnswerCallback None False, True), (AnswerCallback (Some NoSourceMessageAlert) True, True)]"
  using native_checkout_without_message [of initial alice cfg0 all_ok 5]
  by (simp add: input_defs)

text \<open>
  The claim as stated fails: user 5 has no message on record and selects native
  checkout; the acknowledgement of line 124 raises and no alert is sent.
\<close>

theorem native_checkout_unacknowledged_counterexample:
  "current_inline_message initial (uid alice) = None \<and>
   issued initial
     (snd (callback_query_handler cfg0 (net_down_after 0) alice 5 ''siski_gostarpay'' initial)) =
     [(AnswerCallback None False, False)]"
  by (simp add: callback_query_handler_def api_def seq_def issued_def input_defs)

text \<open>
  C8. The code at the failing inputs. User 5 has paid and the platform confirms it:
  with the image of line 282 missing, and again with the delivery raising, user 5 is not
  in \<open>users_subs_list\<close> afterwards (line 294 is the last statement of the \<open>try\<close> block,
  where the Approve branch appends first). And with every call returning, for a payer
  who has an interactive message on record, the delivery is the only call: no caption is
  cleared, since lines 287-292 read \<open>users_query\<close> and nothing writes it.
\<close>

theorem payment_not_fulfilled_at_failing_inputs:
  "users_subs_list (snd (successful_payment_handler cfg0 no_photos alice 5 initial)) = [] \<and>
   users_subs_list (snd (successful_payment_handler cfg0 (net_down_after 0) alice 5 initial)) = [] \<and>
   current_inline_message with_message5 5 = Some (Message 5 10) \<and>
   calls (snd (successful_payment_handler cfg0 all_ok alice 5 with_message5)) =
     [(SendPhoto 5 (FileBytes photo_thanks) Welcome (thanks_keyboard cfg0), True)]"
  by (simp add: successful_payment_handler_def run_defs input_defs)

text \<open>
  C9. The code at the failing input: user 5 is waiting for a receipt and sends the text
  \<open>hello\<close>. The message has no photo, so the filter of line 310 rejects it and the
  handler of line 311 answers with the text of line 302; the reply of line 243 is not
  sent. The user is still waiting afterwards.
\<close>

theorem text_while_awaiting_gets_wrong_command:
  "5 \<in> users_waitingcryptocheck awaiting5 \<and>
   issued awaiting5 (snd (process_update cfg0 all_ok (MessageUpdate alice hello_msg) awaiting5)) =
     [(SendMessage 5 WrongCommand [[CallbackButton HeartExclamation ''start'']], True)] \<and>
   users_waitingcryptocheck (snd (process_update cfg0 all_ok (MessageUpdate alice hello_msg) awaiting5)) = {5}"
  by (simp add: process_update_def filters_PHOTO_def filters_COMMAND_def filters_ALL_def
        filters_SUCCESSFUL_PAYMENT_def fallback_message_handler_def hello_msg_def issued_def
        input_defs)

text \<open>
  C10, as the code has it. \<open>users_subs_list\<close> is a list and a grant is an \<open>append\<close>: a
  grant to a user who is already in the list, by a second Approve or by a payment, adds
  one more entry. The set of members stays the same; the list has a duplicate.
\<close>

theorem repeated_grant:
  "(uid u \<in> admin_ids cfg \<and> startswith data ''admin_cryptopay_'' \<and>
    split_on CHR '':'' data = [action_part, target] \<and> endswith action_part ''_YES'' \<and>
    py_int target = Some t \<and> net_ok e (length (calls w)) \<and> t \<in> set (users_subs_list w) \<longrightarrow>
      users_subs_list (snd (callback_query_handler cfg e u chat_id data w)) = users_subs_list w @ [t] \<and>
      set (users_subs_list (snd (callback_query_handler cfg e u chat_id data w))) = set (users_subs_list w) \<and>
      \<not> distinct (users_subs_list (snd (callback_query_handler cfg e u chat_id data w)))) \<and>
   (fs e photo_thanks = Readable \<and> net_ok e (length (calls w)) \<and> uid u \<in> set (users_subs_list w) \<longrightarrow>
      users_subs_list (snd (successful_payment_handler cfg e u chat_id w)) = users_subs_list w @ [uid u] \<and>
      set (users_subs_list (snd (successful_payment_handler cfg e u chat_id w))) = set (users_subs_list w) \<and>
      \<not> distinct (users_subs_list (snd (successful_payment_handler cfg e u chat_id w))))"
  using approve_appends [of u cfg data action_part target t e w chat_id]
        payment_appends [of e w cfg u chat_id]
  by auto

theorem repeated_grant_witness:
  "users_subs_list (snd (callback_query_handler cfg0 all_ok operator 1 ''admin_cryptopay_YES:7'' approved7)) = [7, 7] \<and>
   set (users_subs_list (snd (callback_query_handler cfg0 all_ok operator 1 ''admin_cryptopay_YES:7'' approved7))) = {7} \<and>
   users_subs_list (snd (successful_payment_handler cfg0 all_ok bob 7 approved7)) = [7, 7] \<and>
   \<not> distinct (users_subs_list (snd (successful_payment_handler cfg0 all_ok bob 7 approved7)))"
  using repeated_grant [of operator cfg0 "''admin_cryptopay_YES:7''" "''admin_cryptopay_YES''"
          "''7''" 7 all_ok approved7 1]
        repeated_grant [of bob cfg0 "''admin_cryptopay_YES:7''" "''admin_cryptopay_YES''"
          "''7''" 7 all_ok approved7 7]
  by (simp add: subs_approved7 input_defs string_defs Let_def)

text \<open>
  The claim as stated fails: the operator approves user 7 twice and the list holds 7
  twice.
\<close>

theorem repeated_grant_counterexample:
  "users_subs_list approved7 = [7] \<and>
   users_subs_list (snd (callback_query_handler cfg0 all_ok operator 1 ''admin_cryptopay_YES:7'' approved7)) = [7, 7]"
  by (simp add: approved7_def callback_query_handler_def admin_callback_def is_admin_iff run_defs
        input_defs string_defs)

end
